theory Spec2Isabelle
  imports Main "HOL-Library.Word" "HOL-Library.AList" "HOL-Library.DAList" "HOL-Library.Multiset"
begin

section \<open>The sync read path: data model\<close>

text \<open>
  The development embeds the methods of \<^verbatim>\<open>DatabaseTransaction\<close> (package
  \<^verbatim>\<open>shared\<close> of the sync API). A Go function returning \<^verbatim>\<open>(v, err)\<close> is a
  function into a tuple whose last component is \<open>error option\<close>, \<open>None\<close> being
  \<^verbatim>\<open>nil\<close>: Go lets a callee return a value next to an error, and one caller
  below reads it. A \<^verbatim>\<open>nil\<close> slice is the empty list. The \<^verbatim>\<open>context.Context\<close> is
  passed on unchanged by every method and is left out.
\<close>

text \<open>
  Errors are compared with \<^verbatim>\<open>==\<close> against the sentinel \<^verbatim>\<open>sql.ErrNoRows\<close>;
  \<^verbatim>\<open>fmt.Errorf("prefix: %w", err)\<close> builds a new error around \<^verbatim>\<open>err\<close>, which
  is never \<^verbatim>\<open>==\<close> to the sentinel.
\<close>

datatype error = ErrNoRows | StorageError string | Errorf string error

text \<open>\<^verbatim>\<open>types.StreamPosition\<close> is an \<^verbatim>\<open>int64\<close>.\<close>

type_synonym StreamPosition = "64 word"

record TopologyToken =
  Depth :: StreamPosition
  PDUPosition :: StreamPosition

record Range =
  From :: StreamPosition
  To :: StreamPosition
  Backwards :: bool

text \<open>
  Of an event the methods read the event ID only; the other fields are what the
  tables and the helpers look at. \<open>UnsignedTransactionID\<close> is the
  \<^verbatim>\<open>transaction_id\<close> field of the event's unsigned section.
\<close>

record HeaderedEvent =
  EventID :: string
  RoomIDOfEvent :: string
  EventType :: string
  StateKey :: "string option"
  Sender :: string
  Content :: string
  PrevContent :: string
  UnsignedTransactionID :: "string option"

text \<open>
  \<^verbatim>\<open>types.StreamEvent\<close>: the event, the position at which it became visible and
  the transaction ID (session ID, transaction ID) of the request that sent it.
\<close>

record StreamEvent =
  HeaderedEvent :: HeaderedEvent
  StreamPosition :: StreamPosition
  TransactionID :: "(64 word \<times> string) option"
  ExcludeFromSync :: bool

record Device =
  ID :: string
  UserID :: string
  SessionID :: "64 word"

record Peek =
  PeekRoomID :: string
  New :: bool
  Deleted :: bool

record StateDelta =
  RoomID :: string
  StateEvents :: "HeaderedEvent list"
  NewlyJoined :: bool
  Membership :: string
  MembershipPos :: StreamPosition

record SendToDeviceEvent =
  MessageID :: StreamPosition
  ToUserID :: string
  ToDeviceID :: string
  Message :: string

text \<open>The filters are handed to the tables; the methods read \<^verbatim>\<open>Limit\<close> only.\<close>

record StateFilter =
  StateLimit :: "64 word"
  StateTypes :: "string list option"
  StateNotTypes :: "string list"

record RoomEventFilter =
  Limit :: "64 word"
  Types :: "string list option"
  NotTypes :: "string list"

text \<open>
  The two results of \<^verbatim>\<open>SelectStateInRange\<close> are only handed on to
  \<^verbatim>\<open>fetchStateEvents\<close>: per room the IDs of the state events needed, and the
  events already loaded.
\<close>

type_synonym StateNeeded = "(string \<times> (string \<times> bool) list) list"
type_synonym EventMap = "(string \<times> StreamEvent) list"

text \<open>
  A Go map returned by a table is an association list with distinct keys
  (\<^typ>\<open>('k, 'v) alist\<close>); its entries come in whatever order the table built it.
\<close>

text \<open>
  \<^verbatim>\<open>Database\<close>: the table interfaces (\<^verbatim>\<open>Topology\<close>, \<^verbatim>\<open>OutputEvents\<close>,
  \<^verbatim>\<open>CurrentRoomState\<close>, \<^verbatim>\<open>Peeks\<close>, \<^verbatim>\<open>SendToDevice\<close>) are implemented per SQL
  dialect outside this file, and so are the methods \<^verbatim>\<open>StreamEventsToEvents\<close>
  and \<^verbatim>\<open>fetchStateEvents\<close> and the package function
  \<^verbatim>\<open>getMembershipFromEvent\<close>. Each is a field: what the call returns for its
  arguments, seen through the transaction handle of the session.
\<close>

record Database =
  SelectPositionInTopology :: "string \<Rightarrow> StreamPosition \<times> StreamPosition \<times> error option"
  SelectMaxPositionInTopology :: "string \<Rightarrow> StreamPosition \<times> StreamPosition \<times> error option"
  SelectStreamToTopologicalPosition ::
    "string \<Rightarrow> StreamPosition \<Rightarrow> bool \<Rightarrow> StreamPosition \<times> error option"
  SelectEventIDsInRange ::
    "string \<Rightarrow> StreamPosition \<Rightarrow> StreamPosition \<Rightarrow> StreamPosition \<Rightarrow> 64 word \<Rightarrow> bool
      \<Rightarrow> string list \<times> error option"
  SelectEvents ::
    "string list \<Rightarrow> RoomEventFilter option \<Rightarrow> bool \<Rightarrow> StreamEvent list \<times> error option"
  SelectStateInRange ::
    "Range \<Rightarrow> StateFilter option \<Rightarrow> string list \<Rightarrow> StateNeeded \<times> EventMap \<times> error option"
  SelectRoomIDsWithAnyMembership :: "string \<Rightarrow> (string, string) alist \<times> error option"
  SelectCurrentState ::
    "string \<Rightarrow> StateFilter option \<Rightarrow> string list \<Rightarrow> HeaderedEvent list \<times> error option"
  SelectPeeksInRange :: "string \<Rightarrow> string \<Rightarrow> Range \<Rightarrow> Peek list \<times> error option"
  SelectSendToDeviceMessages ::
    "string \<Rightarrow> string \<Rightarrow> StreamPosition \<Rightarrow> StreamPosition
      \<Rightarrow> StreamPosition \<times> SendToDeviceEvent list \<times> error option"
  StreamEventsToEvents :: "Device option \<Rightarrow> StreamEvent list \<Rightarrow> HeaderedEvent list"
  fetchStateEvents ::
    "StateNeeded \<Rightarrow> EventMap \<Rightarrow> (string, StreamEvent list) alist \<times> error option"
  getMembershipFromEvent :: "HeaderedEvent \<Rightarrow> string \<Rightarrow> string \<times> string"

text \<open>
  \<^verbatim>\<open>*sql.Tx\<close> belongs to the standard library: of a transaction handle the
  model keeps what its \<^verbatim>\<open>Commit\<close> and \<^verbatim>\<open>Rollback\<close> answer.
\<close>

record Tx =
  TxCommit :: "error option"
  TxRollback :: "error option"

text \<open>
  \<^verbatim>\<open>DatabaseTransaction\<close> embeds \<^verbatim>\<open>*Database\<close> and adds the handle, which is
  \<^verbatim>\<open>nil\<close> for a session that opened no transaction.
\<close>

record DatabaseTransaction = Database +
  txn :: "Tx option"

section \<open>The session and the simple accessors\<close>

definition Commit :: "DatabaseTransaction \<Rightarrow> error option" where
  "Commit d = (case txn d of None \<Rightarrow> None | Some t \<Rightarrow> TxCommit t)"

definition Rollback :: "DatabaseTransaction \<Rightarrow> error option" where
  "Rollback d = (case txn d of None \<Rightarrow> None | Some t \<Rightarrow> TxRollback t)"

definition zeroToken :: TopologyToken where
  "zeroToken = \<lparr>Depth = 0, PDUPosition = 0\<rparr>"

definition GetEventsInTopologicalRange ::
  "DatabaseTransaction \<Rightarrow> TopologyToken \<Rightarrow> TopologyToken \<Rightarrow> string \<Rightarrow> RoomEventFilter \<Rightarrow> bool
    \<Rightarrow> StreamEvent list \<times> error option" where
  "GetEventsInTopologicalRange d from to roomID eventFilter backwardOrdering =
     (let (minDepth, maxDepth, maxStreamPosForMaxDepth) =
            (if backwardOrdering then (Depth to, Depth from, PDUPosition from)
             else (Depth from, Depth to, 0))
      in case SelectEventIDsInRange d roomID minDepth maxDepth maxStreamPosForMaxDepth
                (Limit eventFilter) (\<not> backwardOrdering) of
           (eIDs, Some err) \<Rightarrow> ([], Some err)
         | (eIDs, None) \<Rightarrow> SelectEvents d eIDs (Some eventFilter) True)"

definition StreamToTopologicalPosition ::
  "DatabaseTransaction \<Rightarrow> string \<Rightarrow> StreamPosition \<Rightarrow> bool \<Rightarrow> TopologyToken \<times> error option" where
  "StreamToTopologicalPosition d roomID streamPos backwardOrdering =
     (case SelectStreamToTopologicalPosition d roomID streamPos backwardOrdering of
        (topoPos, err) \<Rightarrow>
          if err = Some ErrNoRows \<and> backwardOrdering then
            (\<lparr>Depth = 0, PDUPosition = streamPos\<rparr>, None)
          else if err = Some ErrNoRows \<and> \<not> backwardOrdering then
            (case SelectMaxPositionInTopology d roomID of
               (topoPos', streamPos', Some err') \<Rightarrow>
                 (zeroToken, Some (Errorf ''d.Topology.SelectMaxPositionInTopology'' err'))
             | (topoPos', streamPos', None) \<Rightarrow>
                 (\<lparr>Depth = topoPos', PDUPosition = streamPos'\<rparr>, None))
          else
            (case err of
               Some e \<Rightarrow>
                 (zeroToken, Some (Errorf ''d.Topology.SelectStreamToTopologicalPosition'' e))
             | None \<Rightarrow> (\<lparr>Depth = topoPos, PDUPosition = streamPos\<rparr>, None)))"

text \<open>
  \<^verbatim>\<open>TopologyToken.Decrement\<close> is a method of package \<^verbatim>\<open>types\<close>, outside this
  file: \<^verbatim>\<open>GetBackwardTopologyPos\<close> takes it as the parameter \<open>Decrement\<close>.
\<close>

definition GetBackwardTopologyPos ::
  "(TopologyToken \<Rightarrow> TopologyToken) \<Rightarrow> DatabaseTransaction \<Rightarrow> StreamEvent list
    \<Rightarrow> TopologyToken \<times> error option" where
  "GetBackwardTopologyPos Decrement d events =
     (case events of
        [] \<Rightarrow> (zeroToken, None)
      | ev # _ \<Rightarrow>
          (case SelectPositionInTopology d (EventID (HeaderedEvent ev)) of
             (pos, spos, Some err) \<Rightarrow> (zeroToken, Some err)
           | (pos, spos, None) \<Rightarrow> (Decrement \<lparr>Depth = pos, PDUPosition = spos\<rparr>, None)))"

definition SendToDeviceUpdatesForSync ::
  "DatabaseTransaction \<Rightarrow> string \<Rightarrow> string \<Rightarrow> StreamPosition \<Rightarrow> StreamPosition
    \<Rightarrow> StreamPosition \<times> SendToDeviceEvent list \<times> error option" where
  "SendToDeviceUpdatesForSync d userID deviceID from to =
     (case SelectSendToDeviceMessages d userID deviceID from to of
        (lastPos, events, Some err) \<Rightarrow>
          (from, [], Some (Errorf ''d.SendToDevice.SelectSendToDeviceMessages'' err))
      | (lastPos, events, None) \<Rightarrow>
          if length events = 0 then (to, [], None) else (lastPos, events, None))"


definition Events ::
  "DatabaseTransaction \<Rightarrow> string list \<Rightarrow> HeaderedEvent list \<times> error option" where
  "Events d eventIDs =
     (case SelectEvents d eventIDs None False of
        (streamEvents, Some err) \<Rightarrow> ([], Some err)
      | (streamEvents, None) \<Rightarrow> (StreamEventsToEvents d None streamEvents, None))"

section \<open>The delta engine\<close>

text \<open>The membership values of \<^verbatim>\<open>gomatrixserverlib\<close> that the engine names.\<close>

abbreviation Join :: string where
  "Join \<equiv> ''join''"

abbreviation PeekMembership :: string where
  "PeekMembership \<equiv> ''peek''"

text \<open>
  Go does not specify the order in which \<^verbatim>\<open>range\<close> visits the entries of a map.
  \<open>go_range seed entries\<close> is the order of one run: the seed picks the next entry
  among those not yet visited, so the result is always a rearrangement of
  \<open>entries\<close>, and every rearrangement is the result of some seed. The functions
  that range over a map take \<open>rnd\<close>, the seed of each of their loops.
\<close>

fun go_range :: "nat list \<Rightarrow> 'a list \<Rightarrow> 'a list" where
  "go_range seed [] = []"
| "go_range [] xs = xs"
| "go_range (s # seed) xs =
     (let i = s mod length xs in xs ! i # go_range seed (take i xs @ drop (Suc i) xs))"

text \<open>Reading a map at a key it does not hold gives the zero value.\<close>

definition stateOf :: "(string \<times> StreamEvent list) list \<Rightarrow> string \<Rightarrow> StreamEvent list" where
  "stateOf state roomID = (case map_of state roomID of None \<Rightarrow> [] | Some s \<Rightarrow> s)"

definition isNewlyJoined :: "(string \<times> bool) list \<Rightarrow> string \<Rightarrow> bool" where
  "isNewlyJoined newlyJoinedRooms roomID =
     (case map_of newlyJoinedRooms roomID of None \<Rightarrow> False | Some b \<Rightarrow> b)"

definition currentStateStreamEventsForRoom ::
  "DatabaseTransaction \<Rightarrow> string \<Rightarrow> StateFilter option \<Rightarrow> StreamEvent list \<times> error option" where
  "currentStateStreamEventsForRoom d roomID stateFilter =
     (case SelectCurrentState d roomID stateFilter [] of
        (allState, Some err) \<Rightarrow> ([], Some err)
      | (allState, None) \<Rightarrow>
          (map (\<lambda>e. \<lparr>HeaderedEvent = e, StreamPosition = 0, TransactionID = None,
                      ExcludeFromSync = False\<rparr>) allState, None))"

text \<open>
  The loop over the membership map that fills \<^verbatim>\<open>allRoomIDs\<close> and
  \<^verbatim>\<open>joinedRoomIDs\<close>, in the order the map is visited.
\<close>

definition allRoomIDsOf :: "(string \<times> string) list \<Rightarrow> string list" where
  "allRoomIDsOf memberships = map fst memberships"

definition joinedRoomIDsOf :: "(string \<times> string) list \<Rightarrow> string list" where
  "joinedRoomIDsOf memberships =
     map fst (filter (\<lambda>(roomID, membership). membership = Join) memberships)"

subsection \<open>Incremental sync\<close>

text \<open>
  The device pointer is dereferenced without a check (\<^verbatim>\<open>device.ID\<close>), so the
  engine is called with a device; the state filter may be \<^verbatim>\<open>nil\<close>. The map
  that \<^verbatim>\<open>fetchStateEvents\<close> returns without an error is taken to be allocated:
  the peek pass writes into it.
\<close>

text \<open>The delta of one peek, appended unless the peek is deleted.\<close>

definition peekDelta ::
  "DatabaseTransaction \<Rightarrow> Device \<Rightarrow> (string \<times> StreamEvent list) list \<Rightarrow> Peek
    \<Rightarrow> StateDelta list \<Rightarrow> StateDelta list" where
  "peekDelta d device state peek deltas =
     (if \<not> Deleted peek then
        deltas @ [\<lparr>RoomID = PeekRoomID peek,
                    StateEvents = StreamEventsToEvents d (Some device) (stateOf state (PeekRoomID peek)),
                    NewlyJoined = False, Membership = PeekMembership, MembershipPos = 0\<rparr>]
      else deltas)"

text \<open>The loop "add peek blocks": \<open>Inl\<close> is the early return with an error.\<close>

fun addPeekBlocks ::
  "DatabaseTransaction \<Rightarrow> Device \<Rightarrow> StateFilter option \<Rightarrow> Peek list
    \<Rightarrow> (string \<times> StreamEvent list) list \<Rightarrow> StateDelta list
    \<Rightarrow> error + ((string \<times> StreamEvent list) list \<times> StateDelta list)" where
  "addPeekBlocks d device stateFilter [] state deltas = Inr (state, deltas)"
| "addPeekBlocks d device stateFilter (peek # peeks) state deltas =
     (if New peek then
        (case currentStateStreamEventsForRoom d (PeekRoomID peek) stateFilter of
           (s, Some err) \<Rightarrow>
             if err = ErrNoRows then addPeekBlocks d device stateFilter peeks state deltas
             else Inl err
         | (s, None) \<Rightarrow>
             (let state' = AList.update (PeekRoomID peek) s state
              in addPeekBlocks d device stateFilter peeks state' (peekDelta d device state' peek deltas)))
      else addPeekBlocks d device stateFilter peeks state (peekDelta d device state peek deltas))"

text \<open>
  The inner loop of "handle newly joined rooms and non-joined rooms" over the
  events \<open>stateStreamEvents\<close> of one room. Its \<^verbatim>\<open>continue\<close> statements go on
  with the next event of the same room, its \<^verbatim>\<open>break\<close> ends the room. The loop
  carries the state map, the map of newly joined rooms and the deltas.
\<close>

fun membershipEvents ::
  "DatabaseTransaction \<Rightarrow> Device \<Rightarrow> string \<Rightarrow> StateFilter option \<Rightarrow> string \<Rightarrow> StreamEvent list
    \<Rightarrow> StreamEvent list
    \<Rightarrow> (string \<times> StreamEvent list) list \<times> (string \<times> bool) list \<times> StateDelta list
    \<Rightarrow> error + ((string \<times> StreamEvent list) list \<times> (string \<times> bool) list \<times> StateDelta list)" where
  "membershipEvents d device userID stateFilter roomID stateStreamEvents [] acc = Inr acc"
| "membershipEvents d device userID stateFilter roomID stateStreamEvents (ev # evs)
      (state, newlyJoinedRooms, deltas) =
     (case getMembershipFromEvent d (HeaderedEvent ev) userID of
        (membership, prevMembership) \<Rightarrow>
          if membership \<noteq> [] then
            if membership = Join \<and> prevMembership \<noteq> membership then
              (case currentStateStreamEventsForRoom d roomID stateFilter of
                 (s, Some err) \<Rightarrow>
                   if err = ErrNoRows then
                     membershipEvents d device userID stateFilter roomID stateStreamEvents evs
                       (state, newlyJoinedRooms, deltas)
                   else Inl err
               | (s, None) \<Rightarrow>
                   membershipEvents d device userID stateFilter roomID stateStreamEvents evs
                     (AList.update roomID s state, AList.update roomID True newlyJoinedRooms, deltas))
            else
              Inr (state, newlyJoinedRooms,
                   deltas @ [\<lparr>RoomID = roomID,
                               StateEvents = StreamEventsToEvents d (Some device) stateStreamEvents,
                               NewlyJoined = False, Membership = membership,
                               MembershipPos = StreamPosition ev\<rparr>])
          else
            membershipEvents d device userID stateFilter roomID stateStreamEvents evs
              (state, newlyJoinedRooms, deltas))"

text \<open>
  The outer loop over the state map. \<open>entries\<close> are the entries of the map in
  the order of the visit: the body writes the map at the key it is visiting only,
  so every entry is read as it was when the loop began.
\<close>

fun membershipRooms ::
  "DatabaseTransaction \<Rightarrow> Device \<Rightarrow> string \<Rightarrow> StateFilter option
    \<Rightarrow> (string \<times> StreamEvent list) list
    \<Rightarrow> (string \<times> StreamEvent list) list \<times> (string \<times> bool) list \<times> StateDelta list
    \<Rightarrow> error + ((string \<times> StreamEvent list) list \<times> (string \<times> bool) list \<times> StateDelta list)" where
  "membershipRooms d device userID stateFilter [] acc = Inr acc"
| "membershipRooms d device userID stateFilter ((roomID, stateStreamEvents) # entries) acc =
     (case membershipEvents d device userID stateFilter roomID stateStreamEvents stateStreamEvents acc of
        Inl err \<Rightarrow> Inl err
      | Inr acc' \<Rightarrow> membershipRooms d device userID stateFilter entries acc')"

text \<open>The loop "Add in currently joined rooms".\<close>

definition joinedDeltas ::
  "DatabaseTransaction \<Rightarrow> Device \<Rightarrow> (string \<times> StreamEvent list) list \<Rightarrow> (string \<times> bool) list
    \<Rightarrow> string list \<Rightarrow> StateDelta list" where
  "joinedDeltas d device state newlyJoinedRooms joinedRoomIDs =
     map (\<lambda>joinedRoomID.
            \<lparr>RoomID = joinedRoomID,
             StateEvents = StreamEventsToEvents d (Some device) (stateOf state joinedRoomID),
             NewlyJoined = isNewlyJoined newlyJoinedRooms joinedRoomID,
             Membership = Join, MembershipPos = 0\<rparr>) joinedRoomIDs"

definition GetStateDeltas ::
  "(nat \<Rightarrow> nat list) \<Rightarrow> DatabaseTransaction \<Rightarrow> Device \<Rightarrow> Range \<Rightarrow> string \<Rightarrow> StateFilter option
    \<Rightarrow> StateDelta list \<times> string list \<times> error option" where
  "GetStateDeltas rnd d device r userID stateFilter =
     (case SelectRoomIDsWithAnyMembership d userID of
        (memberships, Some err) \<Rightarrow>
          if err = ErrNoRows then ([], [], None) else ([], [], Some err)
      | (memberships, None) \<Rightarrow>
          (let visit = go_range (rnd 0) (DAList.impl_of memberships);
               allRoomIDs = allRoomIDsOf visit;
               joinedRoomIDs = joinedRoomIDsOf visit
           in case SelectStateInRange d r stateFilter allRoomIDs of
                (stateNeeded, eventMap, Some err) \<Rightarrow>
                  if err = ErrNoRows then ([], [], None) else ([], [], Some err)
              | (stateNeeded, eventMap, None) \<Rightarrow>
                  (case fetchStateEvents d stateNeeded eventMap of
                     (fetched, Some err) \<Rightarrow>
                       if err = ErrNoRows then ([], [], None) else ([], [], Some err)
                   | (fetched, None) \<Rightarrow>
                       (case SelectPeeksInRange d userID (ID device) r of
                          (peeks, err) \<Rightarrow>
                            if err \<noteq> None \<and> err \<noteq> Some ErrNoRows then ([], [], err)
                            else
                              (case addPeekBlocks d device stateFilter peeks
                                      (DAList.impl_of fetched) [] of
                                 Inl err \<Rightarrow> ([], [], Some err)
                               | Inr (state, deltas) \<Rightarrow>
                                   (case membershipRooms d device userID stateFilter
                                           (go_range (rnd 1) state) (state, [], deltas) of
                                      Inl err \<Rightarrow> ([], [], Some err)
                                    | Inr (state', newlyJoinedRooms, deltas') \<Rightarrow>
                                        (deltas' @ joinedDeltas d device state' newlyJoinedRooms
                                                     joinedRoomIDs,
                                         joinedRoomIDs, None)))))))"

subsection \<open>Full-state sync\<close>







section \<open>The event-store contract behind \<^verbatim>\<open>Events\<close>\<close>

text \<open>
  Modelled from the spec: the table query \<^verbatim>\<open>OutputEvents.SelectEvents\<close>, which is
  not in this file. The spec's \<^verbatim>\<open>events_by_id\<close> "silently drops missing IDs" and
  "preserves input order only if caller sorts": the events of the store whose ID is
  asked for, in the store's order. \<open>fault\<close> is a failure of the database itself,
  \<open>accepts\<close> the meaning of a room-event filter when one is given.
\<close>

definition spec_SelectEvents ::
  "StreamEvent list \<Rightarrow> error option \<Rightarrow> (RoomEventFilter \<Rightarrow> StreamEvent \<Rightarrow> bool)
    \<Rightarrow> string list \<Rightarrow> RoomEventFilter option \<Rightarrow> bool \<Rightarrow> StreamEvent list \<times> error option" where
  "spec_SelectEvents stored fault accepts eventIDs eventFilter preserveOrder =
     (case fault of
        Some err \<Rightarrow> ([], Some err)
      | None \<Rightarrow>
          (filter (\<lambda>se. EventID (HeaderedEvent se) \<in> set eventIDs \<and>
                         (case eventFilter of None \<Rightarrow> True | Some f \<Rightarrow> accepts f se)) stored,
           None))"

text \<open>
  Modelled from the spec: the method \<^verbatim>\<open>StreamEventsToEvents\<close>, which is not in
  this file. The spec: transaction IDs "are NOT attached here -- they're only added
  when a device context is supplied by the delta engine". Without a device every
  event is handed out as stored; with one, \<open>attach\<close> decides whether the stream
  event's transaction ID goes into the unsigned section.
\<close>

definition spec_StreamEventsToEvents ::
  "(Device \<Rightarrow> StreamEvent \<Rightarrow> bool) \<Rightarrow> Device option \<Rightarrow> StreamEvent list \<Rightarrow> HeaderedEvent list" where
  "spec_StreamEventsToEvents attach device streamEvents =
     map (\<lambda>se. case device of
                  None \<Rightarrow> HeaderedEvent se
                | Some dev \<Rightarrow>
                    (case TransactionID se of
                       None \<Rightarrow> HeaderedEvent se
                     | Some (sessionID, transactionID) \<Rightarrow>
                         if attach dev se
                         then (HeaderedEvent se)\<lparr>UnsignedTransactionID := Some transactionID\<rparr>
                         else HeaderedEvent se)) streamEvents"

section \<open>Example stores\<close>

text \<open>
  A membership reader in the manner of \<^verbatim>\<open>getMembershipFromEvent\<close>: the membership
  and the previous membership of a member event whose state key is the user.
\<close>

definition memberOf :: "HeaderedEvent \<Rightarrow> string \<Rightarrow> string \<times> string" where
  "memberOf ev userID =
     (if EventType ev = ''m.room.member'' \<and> StateKey ev = Some userID
      then (Content ev, PrevContent ev) else ([], []))"

text \<open>A store with no rooms, no events and no open transaction.\<close>

definition quietDatabase :: DatabaseTransaction where
  "quietDatabase =
     \<lparr>SelectPositionInTopology = (\<lambda>eventID. (0, 0, Some ErrNoRows)),
      SelectMaxPositionInTopology = (\<lambda>roomID. (0, 0, Some ErrNoRows)),
      SelectStreamToTopologicalPosition = (\<lambda>roomID pos backward. (0, Some ErrNoRows)),
      SelectEventIDsInRange = (\<lambda>roomID minDepth maxDepth maxPos limit asc. ([], None)),
      SelectEvents = (\<lambda>eventIDs eventFilter preserveOrder. ([], None)),
      SelectStateInRange = (\<lambda>r stateFilter roomIDs. ([], [], None)),
      SelectRoomIDsWithAnyMembership = (\<lambda>userID. (DAList.empty, None)),
      SelectCurrentState = (\<lambda>roomID stateFilter excl. ([], None)),
      SelectPeeksInRange = (\<lambda>userID deviceID r. ([], None)),
      SelectSendToDeviceMessages = (\<lambda>userID deviceID from to. (0, [], None)),
      StreamEventsToEvents = (\<lambda>device evs. map HeaderedEvent evs),
      fetchStateEvents = (\<lambda>stateNeeded eventMap. (DAList.empty, None)),
      getMembershipFromEvent = memberOf,
      txn = None\<rparr>"

definition memberEvent :: "string \<Rightarrow> string \<Rightarrow> string \<Rightarrow> string \<Rightarrow> string \<Rightarrow> HeaderedEvent" where
  "memberEvent eventID roomID userID membership prevMembership =
     \<lparr>EventID = eventID, RoomIDOfEvent = roomID, EventType = ''m.room.member'',
      StateKey = Some userID, Sender = userID, Content = membership,
      PrevContent = prevMembership, UnsignedTransactionID = None\<rparr>"

definition streamEvent :: "HeaderedEvent \<Rightarrow> StreamPosition \<Rightarrow> StreamEvent" where
  "streamEvent ev pos =
     \<lparr>HeaderedEvent = ev, StreamPosition = pos, TransactionID = None, ExcludeFromSync = False\<rparr>"

definition alice :: Device where
  "alice = \<lparr>ID = ''PHONE'', UserID = ''@alice:hs'', SessionID = 1\<rparr>"

definition window :: Range where
  "window = \<lparr>From = 0, To = 10, Backwards = False\<rparr>"


text \<open>
  A room with events at the topological positions (3,10), (3,11), (4,12) and
  (5,13) and a maximum position of (7,99); the range query answers the one
  request spelled out and nothing else.
\<close>

definition message :: "string \<Rightarrow> HeaderedEvent" where
  "message eventID =
     \<lparr>EventID = eventID, RoomIDOfEvent = ''!room:hs'', EventType = ''m.room.message'',
      StateKey = None, Sender = ''@bob:hs'', Content = ''hello'', PrevContent = [],
      UnsignedTransactionID = None\<rparr>"

definition pagingDatabase :: DatabaseTransaction where
  "pagingDatabase = quietDatabase
     \<lparr>SelectPositionInTopology :=
        (\<lambda>eventID. if eventID = ''$e13'' then (5, 13, None) else (0, 0, Some ErrNoRows)),
      SelectMaxPositionInTopology :=
        (\<lambda>roomID. if roomID = ''!room:hs'' then (7, 99, None) else (0, 0, Some ErrNoRows)),
      SelectStreamToTopologicalPosition :=
        (\<lambda>roomID pos backward.
           if roomID = ''!room:hs'' \<and> pos = 12 then (4, None) else (0, Some ErrNoRows)),
      SelectEventIDsInRange :=
        (\<lambda>roomID minDepth maxDepth maxPos limit asc.
           if roomID = ''!room:hs'' \<and> minDepth = 3 \<and> maxDepth = 5 \<and> maxPos = 13 \<and> limit = 10 \<and> \<not> asc
           then ([''$e13'', ''$e12'', ''$e11''], None)
           else if roomID = ''!room:hs'' \<and> minDepth = 3 \<and> maxDepth = 5 \<and> maxPos = 0 \<and> limit = 10 \<and> asc
           then ([''$e11'', ''$e12'', ''$e13''], None)
           else ([], None)),
      SelectEvents :=
        (\<lambda>eventIDs eventFilter preserveOrder.
           (map (\<lambda>eventID. streamEvent (message eventID) 0) eventIDs, None))\<rparr>"

text \<open>A store whose every query fails with the same storage error.\<close>

definition connectionLost :: error where
  "connectionLost = StorageError ''connection lost''"

definition brokenDatabase :: DatabaseTransaction where
  "brokenDatabase = quietDatabase
     \<lparr>SelectPositionInTopology := (\<lambda>eventID. (0, 0, Some connectionLost)),
      SelectMaxPositionInTopology := (\<lambda>roomID. (0, 0, Some connectionLost)),
      SelectStreamToTopologicalPosition := (\<lambda>roomID pos backward. (0, Some connectionLost)),
      SelectEventIDsInRange := (\<lambda>roomID minDepth maxDepth maxPos limit asc. ([], Some connectionLost)),
      SelectEvents := (\<lambda>eventIDs eventFilter preserveOrder. ([], Some connectionLost)),
      SelectStateInRange := (\<lambda>r stateFilter roomIDs. ([], [], Some connectionLost)),
      SelectRoomIDsWithAnyMembership := (\<lambda>userID. (DAList.empty, Some connectionLost)),
      SelectCurrentState := (\<lambda>roomID stateFilter excl. ([], Some connectionLost)),
      SelectPeeksInRange := (\<lambda>userID deviceID r. ([], Some connectionLost)),
      SelectSendToDeviceMessages := (\<lambda>userID deviceID from to. (0, [], Some connectionLost)),
      fetchStateEvents := (\<lambda>stateNeeded eventMap. (DAList.empty, Some connectionLost))\<rparr>"

text \<open>A store holding one send-to-device message, delivered at position 7.\<close>

definition keyRequest :: SendToDeviceEvent where
  "keyRequest =
     \<lparr>MessageID = 7, ToUserID = ''@alice:hs'', ToDeviceID = ''PHONE'', Message = ''m.room_key_request''\<rparr>"

definition mailDatabase :: DatabaseTransaction where
  "mailDatabase = quietDatabase
     \<lparr>SelectSendToDeviceMessages := (\<lambda>userID deviceID from to. (7, [keyRequest], None))\<rparr>"

text \<open>A decrement in the manner of \<^verbatim>\<open>TopologyToken.Decrement\<close>: one depth lower.\<close>

definition oneDepthLower :: "TopologyToken \<Rightarrow> TopologyToken" where
  "oneDepthLower t = t\<lparr>Depth := Depth t - 1\<rparr>"


text \<open>
  The user's homeserver view: she joined \<^verbatim>\<open>!room:hs\<close> at position 5 and left
  \<^verbatim>\<open>!old:hs\<close> at position 7, both inside the window, and her device began to
  peek into \<^verbatim>\<open>!lobby:hs\<close>.
\<close>

definition roomCreate :: HeaderedEvent where
  "roomCreate =
     \<lparr>EventID = ''$c1'', RoomIDOfEvent = ''!room:hs'', EventType = ''m.room.create'',
      StateKey = Some [], Sender = ''@bob:hs'', Content = [], PrevContent = [],
      UnsignedTransactionID = None\<rparr>"

definition lobbyCreate :: HeaderedEvent where
  "lobbyCreate =
     \<lparr>EventID = ''$c2'', RoomIDOfEvent = ''!lobby:hs'', EventType = ''m.room.create'',
      StateKey = Some [], Sender = ''@bob:hs'', Content = [], PrevContent = [],
      UnsignedTransactionID = None\<rparr>"

definition aliceJoins :: HeaderedEvent where
  "aliceJoins = memberEvent ''$e5'' ''!room:hs'' ''@alice:hs'' ''join'' ''invite''"

definition aliceRenames :: HeaderedEvent where
  "aliceRenames = memberEvent ''$e6'' ''!room:hs'' ''@alice:hs'' ''join'' ''join''"

definition aliceLeaves :: HeaderedEvent where
  "aliceLeaves = memberEvent ''$e8'' ''!room:hs'' ''@alice:hs'' ''leave'' ''join''"

definition aliceLeft :: HeaderedEvent where
  "aliceLeft = memberEvent ''$e7'' ''!old:hs'' ''@alice:hs'' ''leave'' ''join''"

definition homeDatabase :: DatabaseTransaction where
  "homeDatabase = quietDatabase
     \<lparr>SelectRoomIDsWithAnyMembership :=
        (\<lambda>userID. (DAList.Alist [(''!room:hs'', ''join''), (''!old:hs'', ''leave'')], None)),
      SelectCurrentState :=
        (\<lambda>roomID stateFilter excl.
           if roomID = ''!room:hs'' then ([roomCreate, aliceJoins], None)
           else if roomID = ''!lobby:hs'' then ([lobbyCreate], None)
           else ([], None)),
      SelectPeeksInRange :=
        (\<lambda>userID deviceID r. ([\<lparr>PeekRoomID = ''!lobby:hs'', New = True, Deleted = False\<rparr>], None)),
      fetchStateEvents :=
        (\<lambda>stateNeeded eventMap.
           (DAList.Alist [(''!room:hs'', [streamEvent aliceJoins 5]),
                          (''!old:hs'', [streamEvent aliceLeft 7])], None))\<rparr>"

text \<open>The same view when the current-state lookup finds no rows for any room.\<close>

definition noStateDatabase :: DatabaseTransaction where
  "noStateDatabase = homeDatabase
     \<lparr>SelectCurrentState := (\<lambda>roomID stateFilter excl. ([], Some ErrNoRows))\<rparr>"

text \<open>The same view when the device still peeks into the room the user has joined.\<close>

definition peekAndJoinDatabase :: DatabaseTransaction where
  "peekAndJoinDatabase = homeDatabase
     \<lparr>SelectPeeksInRange :=
        (\<lambda>userID deviceID r. ([\<lparr>PeekRoomID = ''!room:hs'', New = False, Deleted = False\<rparr>], None))\<rparr>"

text \<open>The user joins at position 5 and changes her display name at position 6.\<close>

definition renameDatabase :: DatabaseTransaction where
  "renameDatabase = homeDatabase
     \<lparr>SelectPeeksInRange := (\<lambda>userID deviceID r. ([], None)),
      fetchStateEvents :=
        (\<lambda>stateNeeded eventMap.
           (DAList.Alist [(''!room:hs'', [streamEvent aliceJoins 5, streamEvent aliceRenames 6])],
            None))\<rparr>"

text \<open>The user joins at position 5 and leaves again at position 8.\<close>

definition comeAndGoDatabase :: DatabaseTransaction where
  "comeAndGoDatabase = quietDatabase
     \<lparr>SelectRoomIDsWithAnyMembership :=
        (\<lambda>userID. (DAList.Alist [(''!room:hs'', ''leave'')], None)),
      SelectCurrentState := (\<lambda>roomID stateFilter excl. ([roomCreate, aliceLeaves], None)),
      fetchStateEvents :=
        (\<lambda>stateNeeded eventMap.
           (DAList.Alist [(''!room:hs'', [streamEvent aliceJoins 5, streamEvent aliceLeaves 8])],
            None))\<rparr>"

text \<open>The same view when every current-state lookup fails with a storage error.\<close>

definition stateLostDatabase :: DatabaseTransaction where
  "stateLostDatabase = homeDatabase
     \<lparr>SelectCurrentState := (\<lambda>roomID stateFilter excl. ([], Some connectionLost))\<rparr>"

text \<open>
  The same view when the current-state lookup finds the room the user joined and
  finds no rows for any other room.
\<close>

definition lobbyGoneDatabase :: DatabaseTransaction where
  "lobbyGoneDatabase = homeDatabase
     \<lparr>SelectCurrentState :=
        (\<lambda>roomID stateFilter excl.
           if roomID = ''!room:hs'' then ([roomCreate, aliceJoins], None)
           else ([], Some ErrNoRows))\<rparr>"

text \<open>
  The user joins at position 5 and leaves again at position 8, and the
  current-state lookup finds no rows.
\<close>

definition goneAgainDatabase :: DatabaseTransaction where
  "goneAgainDatabase = comeAndGoDatabase
     \<lparr>SelectCurrentState := (\<lambda>roomID stateFilter excl. ([], Some ErrNoRows))\<rparr>"

text \<open>A user the membership table has no row for.\<close>

definition strangerDatabase :: DatabaseTransaction where
  "strangerDatabase = quietDatabase
     \<lparr>SelectRoomIDsWithAnyMembership := (\<lambda>userID. (DAList.empty, Some ErrNoRows))\<rparr>"

text \<open>
  An event store under the contract of \<open>spec_SelectEvents\<close> and
  \<open>spec_StreamEventsToEvents\<close>: two messages, the first sent by session 1 of
  the user as transaction \<^verbatim>\<open>m1\<close>; a device always gets its transaction IDs.
\<close>

definition archive :: "StreamEvent list" where
  "archive =
     [\<lparr>HeaderedEvent = message ''$e11'', StreamPosition = 11, TransactionID = Some (1, ''m1''),
       ExcludeFromSync = False\<rparr>,
      streamEvent (message ''$e12'') 12]"

definition archiveDatabase :: DatabaseTransaction where
  "archiveDatabase = quietDatabase
     \<lparr>SelectEvents := spec_SelectEvents archive None (\<lambda>eventFilter se. True),
      StreamEventsToEvents := spec_StreamEventsToEvents (\<lambda>device se. True)\<rparr>"

text \<open>The three kinds of delta, for writing down results.\<close>

definition peekOf :: "string \<Rightarrow> HeaderedEvent list \<Rightarrow> StateDelta" where
  "peekOf roomID events =
     \<lparr>RoomID = roomID, StateEvents = events, NewlyJoined = False, Membership = PeekMembership,
      MembershipPos = 0\<rparr>"

definition joinOf :: "string \<Rightarrow> HeaderedEvent list \<Rightarrow> bool \<Rightarrow> StateDelta" where
  "joinOf roomID events newlyJoined =
     \<lparr>RoomID = roomID, StateEvents = events, NewlyJoined = newlyJoined, Membership = Join,
      MembershipPos = 0\<rparr>"

definition changeOf :: "string \<Rightarrow> string \<Rightarrow> StreamPosition \<Rightarrow> HeaderedEvent list \<Rightarrow> StateDelta" where
  "changeOf roomID membership pos events =
     \<lparr>RoomID = roomID, StateEvents = events, NewlyJoined = False, Membership = membership,
      MembershipPos = pos\<rparr>"

text \<open>Two visiting orders: the entries as they stand, and the second entry first.\<close>

definition inOrder :: "nat \<Rightarrow> nat list" where
  "inOrder loop = []"

definition secondFirst :: "nat \<Rightarrow> nat list" where
  "secondFirst loop = [1]"

section \<open>Auxiliary notions\<close>


text \<open>
  The deltas of one room, read off the room's own data. A membership event of the
  user is a fresh join when it is a join whose previous membership is not join;
  any other membership event of the user is a change that the classification
  pass reports.
\<close>

definition isMember :: "DatabaseTransaction \<Rightarrow> string \<Rightarrow> StreamEvent \<Rightarrow> bool" where
  "isMember d userID ev = (fst (getMembershipFromEvent d (HeaderedEvent ev) userID) \<noteq> [])"

definition isFreshJoin :: "DatabaseTransaction \<Rightarrow> string \<Rightarrow> StreamEvent \<Rightarrow> bool" where
  "isFreshJoin d userID ev =
     (case getMembershipFromEvent d (HeaderedEvent ev) userID of (m, p) \<Rightarrow> m = Join \<and> p \<noteq> Join)"

definition isChange :: "DatabaseTransaction \<Rightarrow> string \<Rightarrow> StreamEvent \<Rightarrow> bool" where
  "isChange d userID ev = (isMember d userID ev \<and> \<not> isFreshJoin d userID ev)"

text \<open>
  Incremental sync. \<open>own\<close> are the peeks into the room in the order of the peek
  list, \<open>w\<close> the events of the room in the window, \<open>(s, cerr)\<close> the answer of the
  room's current-state lookup. A peek that is not new carries the state the room
  has when the peek is reached; a new peek carries the full current state, or is
  passed over when the lookup did not succeed.
\<close>

definition roomPeekDeltas ::
  "DatabaseTransaction \<Rightarrow> Device \<Rightarrow> string \<Rightarrow> StreamEvent list \<times> error option \<Rightarrow> Peek list
    \<Rightarrow> StreamEvent list \<Rightarrow> StateDelta list" where
  "roomPeekDeltas d device roomID cur own w =
     (if snd cur = None then
        map (\<lambda>p. peekOf roomID (StreamEventsToEvents d (Some device) w))
          (filter (\<lambda>p. \<not> Deleted p) (takeWhile (\<lambda>p. \<not> New p) own)) @
        map (\<lambda>p. peekOf roomID (StreamEventsToEvents d (Some device) (fst cur)))
          (filter (\<lambda>p. \<not> Deleted p) (dropWhile (\<lambda>p. \<not> New p) own))
      else
        map (\<lambda>p. peekOf roomID (StreamEventsToEvents d (Some device) w))
          (filter (\<lambda>p. \<not> New p \<and> \<not> Deleted p) own))"

text \<open>The events of the room that the classification pass scans.\<close>

definition roomEvents ::
  "StreamEvent list \<times> error option \<Rightarrow> Peek list \<Rightarrow> StreamEvent list \<Rightarrow> StreamEvent list" where
  "roomEvents cur own w = (if snd cur = None \<and> list_ex New own then fst cur else w)"

text \<open>The delta of the first change among the events scanned, if there is one.\<close>

definition roomChangeDeltas ::
  "DatabaseTransaction \<Rightarrow> Device \<Rightarrow> string \<Rightarrow> string \<Rightarrow> StreamEvent list \<Rightarrow> StateDelta list" where
  "roomChangeDeltas d device userID roomID evs =
     (case find (isChange d userID) evs of
        None \<Rightarrow> []
      | Some ev \<Rightarrow>
          [changeOf roomID (fst (getMembershipFromEvent d (HeaderedEvent ev) userID))
             (StreamPosition ev) (StreamEventsToEvents d (Some device) evs)])"

text \<open>
  The room is marked newly joined when a fresh join comes before the first change
  and the lookup succeeded.
\<close>

definition roomMarked ::
  "DatabaseTransaction \<Rightarrow> string \<Rightarrow> StreamEvent list \<times> error option \<Rightarrow> StreamEvent list \<Rightarrow> bool" where
  "roomMarked d userID cur evs =
     (snd cur = None \<and>
      list_ex (isFreshJoin d userID) (takeWhile (\<lambda>ev. \<not> isChange d userID ev) evs))"

definition roomDeltas ::
  "DatabaseTransaction \<Rightarrow> Device \<Rightarrow> string \<Rightarrow> StateFilter option \<Rightarrow> (string, string) alist
    \<Rightarrow> (string, StreamEvent list) alist \<Rightarrow> Peek list \<Rightarrow> string \<Rightarrow> StateDelta list" where
  "roomDeltas d device userID stateFilter memberships fetched peeks roomID =
     (let cur = currentStateStreamEventsForRoom d roomID stateFilter;
          own = filter (\<lambda>p. PeekRoomID p = roomID) peeks;
          w = stateOf (DAList.impl_of fetched) roomID;
          evs = roomEvents cur own w;
          marked = roomMarked d userID cur evs
      in roomPeekDeltas d device roomID cur own w @
         roomChangeDeltas d device userID roomID evs @
         (if DAList.lookup memberships roomID = Some Join
          then [joinOf roomID
                  (StreamEventsToEvents d (Some device) (if marked then fst cur else evs)) marked]
          else []))"

text \<open>
  Full-state sync: the last pass that wrote the room decides. The join delta of a
  joined room comes first, then the delta of the first membership event of the
  user in the window when it is not a join, then the peek delta.
\<close>

definition roomFullStateDeltas ::
  "DatabaseTransaction \<Rightarrow> Device \<Rightarrow> string \<Rightarrow> StateFilter option \<Rightarrow> (string, string) alist
    \<Rightarrow> (string, StreamEvent list) alist \<Rightarrow> Peek list \<Rightarrow> string \<Rightarrow> StateDelta list" where
  "roomFullStateDeltas d device userID stateFilter memberships fetched peeks roomID =
     (let cur = currentStateStreamEventsForRoom d roomID stateFilter;
          w = stateOf (DAList.impl_of fetched) roomID;
          full = StreamEventsToEvents d (Some device) (fst cur);
          peeked = (if list_ex (\<lambda>p. PeekRoomID p = roomID \<and> \<not> Deleted p) peeks \<and> snd cur = None
                    then [peekOf roomID full] else [])
      in if DAList.lookup memberships roomID = Some Join \<and> snd cur = None
         then [joinOf roomID full False]
         else (case find (isMember d userID) w of
                 None \<Rightarrow> peeked
               | Some ev \<Rightarrow>
                   if fst (getMembershipFromEvent d (HeaderedEvent ev) userID) \<noteq> Join
                   then [changeOf roomID (fst (getMembershipFromEvent d (HeaderedEvent ev) userID))
                           (StreamPosition ev) (StreamEventsToEvents d (Some device) w)]
                   else peeked))"

section \<open>Properties of the session and the simple accessors\<close>

text \<open>
  Claim C9. \<^verbatim>\<open>Commit\<close> and \<^verbatim>\<open>Rollback\<close> on a transaction whose SQL handle is
  \<^verbatim>\<open>nil\<close> return \<^verbatim>\<open>nil\<close>: releasing a session that never opened a transaction
  cannot fail.
\<close>

theorem Commit_Rollback_nil_txn:
  "txn d = None \<Longrightarrow> Commit d = None \<and> Rollback d = None"
  by (simp add: Commit_def Rollback_def)

theorem Commit_Rollback_nil_txn_witness:
  "txn quietDatabase = None \<and> Commit quietDatabase = None \<and> Rollback quietDatabase = None"
proof -
  have h: "txn quietDatabase = None" by (simp add: quietDatabase_def)
  from Commit_Rollback_nil_txn [OF h] h show ?thesis by simp
qed


text \<open>
  Claim C6. \<^verbatim>\<open>SendToDeviceUpdatesForSync\<close> over the window from \<open>from\<close> to \<open>to\<close>:
  when the store yields no event the cursor returned is \<open>to\<close> and the list is
  empty; otherwise the position the store reports and its events are returned; on
  a store error the cursor is \<open>from\<close> and the error comes back, wrapped with the
  name of the query.
\<close>

theorem SendToDeviceUpdatesForSync_cursor:
  assumes "SelectSendToDeviceMessages d userID deviceID from to = (lastPos, events, err)"
  shows "(err = None \<and> events = [] \<longrightarrow>
            SendToDeviceUpdatesForSync d userID deviceID from to = (to, [], None)) \<and>
         (err = None \<and> events \<noteq> [] \<longrightarrow>
            SendToDeviceUpdatesForSync d userID deviceID from to = (lastPos, events, None)) \<and>
         (\<forall>e. err = Some e \<longrightarrow>
            SendToDeviceUpdatesForSync d userID deviceID from to =
              (from, [], Some (Errorf ''d.SendToDevice.SelectSendToDeviceMessages'' e)))"
  using assms by (auto simp: SendToDeviceUpdatesForSync_def)

theorem SendToDeviceUpdatesForSync_cursor_witness:
  "SendToDeviceUpdatesForSync quietDatabase ''@alice:hs'' ''PHONE'' 3 9 = (9, [], None) \<and>
   SendToDeviceUpdatesForSync mailDatabase ''@alice:hs'' ''PHONE'' 3 9 = (7, [keyRequest], None) \<and>
   SendToDeviceUpdatesForSync brokenDatabase ''@alice:hs'' ''PHONE'' 3 9 =
     (3, [], Some (Errorf ''d.SendToDevice.SelectSendToDeviceMessages'' connectionLost))"
proof -
  have q: "SelectSendToDeviceMessages quietDatabase ''@alice:hs'' ''PHONE'' 3 9 = (0, [], None)"
    by (simp add: quietDatabase_def)
  have m: "SelectSendToDeviceMessages mailDatabase ''@alice:hs'' ''PHONE'' 3 9 = (7, [keyRequest], None)"
    by (simp add: mailDatabase_def quietDatabase_def)
  have b: "SelectSendToDeviceMessages brokenDatabase ''@alice:hs'' ''PHONE'' 3 9 =
      (0, [], Some connectionLost)"
    by (simp add: brokenDatabase_def quietDatabase_def)
  from SendToDeviceUpdatesForSync_cursor [OF q] SendToDeviceUpdatesForSync_cursor [OF m]
    SendToDeviceUpdatesForSync_cursor [OF b]
  show ?thesis by simp
qed


text \<open>
  Claim C4. \<^verbatim>\<open>StreamToTopologicalPosition\<close> absorbs the not-found answer of the
  topology lookup: going backward it returns depth 0 with the stream position
  asked for and no error; going forward it returns the maximum topological
  position of the room (the error of that second lookup, if any, is wrapped and
  returned); any other error of the lookup is wrapped and returned; on success it
  returns the depth found with the stream position asked for.
\<close>

theorem StreamToTopologicalPosition_cases:
  assumes "SelectStreamToTopologicalPosition d roomID streamPos backward = (depth, err)"
  shows "(err = Some ErrNoRows \<and> backward \<longrightarrow>
            StreamToTopologicalPosition d roomID streamPos backward =
              (\<lparr>Depth = 0, PDUPosition = streamPos\<rparr>, None)) \<and>
         (\<forall>maxDepth maxPos. err = Some ErrNoRows \<and> \<not> backward \<and>
            SelectMaxPositionInTopology d roomID = (maxDepth, maxPos, None) \<longrightarrow>
            StreamToTopologicalPosition d roomID streamPos backward =
              (\<lparr>Depth = maxDepth, PDUPosition = maxPos\<rparr>, None)) \<and>
         (\<forall>maxDepth maxPos e. err = Some ErrNoRows \<and> \<not> backward \<and>
            SelectMaxPositionInTopology d roomID = (maxDepth, maxPos, Some e) \<longrightarrow>
            StreamToTopologicalPosition d roomID streamPos backward =
              (\<lparr>Depth = 0, PDUPosition = 0\<rparr>,
               Some (Errorf ''d.Topology.SelectMaxPositionInTopology'' e))) \<and>
         (\<forall>e. err = Some e \<and> e \<noteq> ErrNoRows \<longrightarrow>
            StreamToTopologicalPosition d roomID streamPos backward =
              (\<lparr>Depth = 0, PDUPosition = 0\<rparr>,
               Some (Errorf ''d.Topology.SelectStreamToTopologicalPosition'' e))) \<and>
         (err = None \<longrightarrow>
            StreamToTopologicalPosition d roomID streamPos backward =
              (\<lparr>Depth = depth, PDUPosition = streamPos\<rparr>, None))"
  using assms by (auto simp: StreamToTopologicalPosition_def zeroToken_def)

theorem StreamToTopologicalPosition_cases_witness:
  "StreamToTopologicalPosition pagingDatabase ''!room:hs'' 1000 True =
     (\<lparr>Depth = 0, PDUPosition = 1000\<rparr>, None) \<and>
   StreamToTopologicalPosition pagingDatabase ''!room:hs'' 1000 False =
     (\<lparr>Depth = 7, PDUPosition = 99\<rparr>, None) \<and>
   StreamToTopologicalPosition pagingDatabase ''!empty:hs'' 1000 False =
     (\<lparr>Depth = 0, PDUPosition = 0\<rparr>, Some (Errorf ''d.Topology.SelectMaxPositionInTopology'' ErrNoRows)) \<and>
   StreamToTopologicalPosition brokenDatabase ''!room:hs'' 1000 False =
     (\<lparr>Depth = 0, PDUPosition = 0\<rparr>,
      Some (Errorf ''d.Topology.SelectStreamToTopologicalPosition'' connectionLost)) \<and>
   StreamToTopologicalPosition pagingDatabase ''!room:hs'' 12 True =
     (\<lparr>Depth = 4, PDUPosition = 12\<rparr>, None)"
proof -
  have a: "SelectStreamToTopologicalPosition pagingDatabase ''!room:hs'' 1000 True = (0, Some ErrNoRows)"
    and b: "SelectStreamToTopologicalPosition pagingDatabase ''!room:hs'' 1000 False = (0, Some ErrNoRows)"
    and c: "SelectStreamToTopologicalPosition pagingDatabase ''!empty:hs'' 1000 False = (0, Some ErrNoRows)"
    and e: "SelectStreamToTopologicalPosition pagingDatabase ''!room:hs'' 12 True = (4, None)"
    and m: "SelectMaxPositionInTopology pagingDatabase ''!room:hs'' = (7, 99, None)"
    and n: "SelectMaxPositionInTopology pagingDatabase ''!empty:hs'' = (0, 0, Some ErrNoRows)"
    by (simp_all add: pagingDatabase_def quietDatabase_def)
  have f: "SelectStreamToTopologicalPosition brokenDatabase ''!room:hs'' 1000 False =
      (0, Some connectionLost)"
    by (simp add: brokenDatabase_def quietDatabase_def)
  have ne: "connectionLost \<noteq> ErrNoRows" by (simp add: connectionLost_def)
  from StreamToTopologicalPosition_cases [OF a] StreamToTopologicalPosition_cases [OF b]
    StreamToTopologicalPosition_cases [OF c] StreamToTopologicalPosition_cases [OF f]
    StreamToTopologicalPosition_cases [OF e] m n ne
  show ?thesis by simp
qed


text \<open>
  Claim C5. \<^verbatim>\<open>GetEventsInTopologicalRange\<close> with tokens \<open>from\<close> and \<open>to\<close>: going
  backward the range query gets the minimum depth of \<open>to\<close>, the maximum depth of
  \<open>from\<close> and the PDU position of \<open>from\<close> as the bound at the maximum depth; going
  forward it gets the depths of \<open>from\<close> and \<open>to\<close> and the bound left at zero; the
  query is ascending exactly when the request is not backward and carries the
  limit of the filter; the IDs it returns are loaded from the event store with the
  same filter.
\<close>

theorem GetEventsInTopologicalRange_query:
  "(backward \<longrightarrow>
      GetEventsInTopologicalRange d from to roomID eventFilter backward =
        (case SelectEventIDsInRange d roomID (Depth to) (Depth from) (PDUPosition from)
                (Limit eventFilter) False of
           (eIDs, Some err) \<Rightarrow> ([], Some err)
         | (eIDs, None) \<Rightarrow> SelectEvents d eIDs (Some eventFilter) True)) \<and>
   (\<not> backward \<longrightarrow>
      GetEventsInTopologicalRange d from to roomID eventFilter backward =
        (case SelectEventIDsInRange d roomID (Depth from) (Depth to) 0
                (Limit eventFilter) True of
           (eIDs, Some err) \<Rightarrow> ([], Some err)
         | (eIDs, None) \<Rightarrow> SelectEvents d eIDs (Some eventFilter) True))"
  by (simp add: GetEventsInTopologicalRange_def)

theorem GetEventsInTopologicalRange_query_witness:
  "GetEventsInTopologicalRange pagingDatabase \<lparr>Depth = 5, PDUPosition = 13\<rparr>
       \<lparr>Depth = 3, PDUPosition = 10\<rparr> ''!room:hs'' \<lparr>Limit = 10, Types = None, NotTypes = []\<rparr> True =
     ([streamEvent (message ''$e13'') 0, streamEvent (message ''$e12'') 0,
       streamEvent (message ''$e11'') 0], None) \<and>
   GetEventsInTopologicalRange pagingDatabase \<lparr>Depth = 3, PDUPosition = 10\<rparr>
       \<lparr>Depth = 5, PDUPosition = 13\<rparr> ''!room:hs'' \<lparr>Limit = 10, Types = None, NotTypes = []\<rparr> False =
     ([streamEvent (message ''$e11'') 0, streamEvent (message ''$e12'') 0,
       streamEvent (message ''$e13'') 0], None)"
  using GetEventsInTopologicalRange_query [of True pagingDatabase "\<lparr>Depth = 5, PDUPosition = 13\<rparr>"
      "\<lparr>Depth = 3, PDUPosition = 10\<rparr>" "''!room:hs''" "\<lparr>Limit = 10, Types = None, NotTypes = []\<rparr>"]
    GetEventsInTopologicalRange_query [of False pagingDatabase "\<lparr>Depth = 3, PDUPosition = 10\<rparr>"
      "\<lparr>Depth = 5, PDUPosition = 13\<rparr>" "''!room:hs''" "\<lparr>Limit = 10, Types = None, NotTypes = []\<rparr>"]
  by (simp add: pagingDatabase_def quietDatabase_def)


text \<open>
  Claim C10. \<^verbatim>\<open>GetBackwardTopologyPos\<close> on an empty list of events returns the
  zero token and no error, whatever the store holds; on a non-empty list it looks
  up the topological position of the first event and returns it decremented, or
  the zero token with the error of the lookup.
\<close>

theorem GetBackwardTopologyPos_cases:
  "GetBackwardTopologyPos Decrement d [] = (\<lparr>Depth = 0, PDUPosition = 0\<rparr>, None) \<and>
   (\<forall>ev evs pos spos.
      SelectPositionInTopology d (EventID (HeaderedEvent ev)) = (pos, spos, None) \<longrightarrow>
      GetBackwardTopologyPos Decrement d (ev # evs) =
        (Decrement \<lparr>Depth = pos, PDUPosition = spos\<rparr>, None)) \<and>
   (\<forall>ev evs pos spos err.
      SelectPositionInTopology d (EventID (HeaderedEvent ev)) = (pos, spos, Some err) \<longrightarrow>
      GetBackwardTopologyPos Decrement d (ev # evs) = (\<lparr>Depth = 0, PDUPosition = 0\<rparr>, Some err))"
  by (simp add: GetBackwardTopologyPos_def zeroToken_def)

theorem GetBackwardTopologyPos_cases_witness:
  "GetBackwardTopologyPos oneDepthLower pagingDatabase [] = (\<lparr>Depth = 0, PDUPosition = 0\<rparr>, None) \<and>
   GetBackwardTopologyPos oneDepthLower pagingDatabase
       [streamEvent (message ''$e13'') 13, streamEvent (message ''$e12'') 12] =
     (\<lparr>Depth = 4, PDUPosition = 13\<rparr>, None) \<and>
   GetBackwardTopologyPos oneDepthLower pagingDatabase [streamEvent (message ''$e99'') 99] =
     (\<lparr>Depth = 0, PDUPosition = 0\<rparr>, Some ErrNoRows)"
proof -
  have a: "SelectPositionInTopology pagingDatabase
      (EventID (HeaderedEvent (streamEvent (message ''$e13'') 13))) = (5, 13, None)"
    and b: "SelectPositionInTopology pagingDatabase
      (EventID (HeaderedEvent (streamEvent (message ''$e99'') 99))) = (0, 0, Some ErrNoRows)"
    by (simp_all add: pagingDatabase_def quietDatabase_def streamEvent_def message_def)
  from GetBackwardTopologyPos_cases [of oneDepthLower pagingDatabase] a b
  show ?thesis by (simp add: oneDepthLower_def)
qed

section \<open>Maps and visiting orders\<close>

lemma mset_go_range: "mset (go_range seed xs) = mset xs"
proof (induction seed xs rule: go_range.induct)
  case (3 s seed v va)
  let ?xs = "v # va"
  let ?i = "s mod length ?xs"
  have i: "?i < length ?xs" by simp
  have "mset ?xs = mset (take ?i ?xs @ ?xs ! ?i # drop (Suc ?i) ?xs)"
    using id_take_nth_drop [OF i] by simp
  with 3 show ?case by (simp add: Let_def)
qed simp_all

text \<open>Every order of the entries is the visit of some seed.\<close>

lemma go_range_any_order:
  "mset ys = mset xs \<Longrightarrow> \<exists>seed. go_range seed xs = ys"
proof (induction ys arbitrary: xs)
  case Nil
  then show ?case by simp
next
  case (Cons y ys)
  from Cons.prems have "y \<in> set xs" by (metis list.set_intros(1) mset_eq_setD)
  then obtain i where i: "i < length xs" and y: "xs ! i = y" by (auto simp: in_set_conv_nth)
  let ?rest = "take i xs @ drop (Suc i) xs"
  from i have xs: "xs = take i xs @ xs ! i # drop (Suc i) xs" by (rule id_take_nth_drop)
  have "mset xs = add_mset (xs ! i) (mset ?rest)"
    by (subst xs) simp
  with Cons.prems y have "mset ys = mset ?rest" by simp
  from Cons.IH [OF this] obtain seed where seed: "go_range seed ?rest = ys" by blast
  from i obtain v va where c: "xs = v # va" by (cases xs) auto
  from i have "go_range (i # seed) xs = xs ! i # go_range seed ?rest"
    unfolding c by (simp add: Let_def)
  with seed y show ?case by auto
qed

lemma set_go_range: "set (go_range seed xs) = set xs"
  using mset_go_range [of seed xs] by (rule mset_eq_setD)

lemma distinct_keys_go_range:
  "distinct (map fst (go_range seed xs)) = distinct (map fst xs)"
proof -
  have "mset (map fst (go_range seed xs)) = mset (map fst xs)"
    by (simp add: mset_go_range)
  then show ?thesis by (rule mset_eq_imp_distinct_iff)
qed









section \<open>The loops of the full-state variant\<close>

lemma set_joinedRoomIDsOf:
  "set (joinedRoomIDsOf (go_range seed (DAList.impl_of m))) = {k. DAList.lookup m k = Some Join}"
  by (auto simp: joinedRoomIDsOf_def set_go_range DAList.lookup.rep_eq image_iff)

lemma distinct_joinedRoomIDsOf:
  "distinct (joinedRoomIDsOf (go_range seed (DAList.impl_of m)))"
  unfolding joinedRoomIDsOf_def
  by (rule distinct_map_fst_filter) (simp add: distinct_keys_go_range)

lemma currentState_ok:
  "SelectCurrentState d roomID stateFilter [] = (allState, None) \<Longrightarrow>
   currentStateStreamEventsForRoom d roomID stateFilter =
     (map (\<lambda>e. \<lparr>HeaderedEvent = e, StreamPosition = 0, TransactionID = None,
                 ExcludeFromSync = False\<rparr>) allState, None)"
  by (simp add: currentStateStreamEventsForRoom_def)










section \<open>The loops of incremental sync\<close>

lemma addPeekBlocks_distinct:
  "distinct (map fst state) \<Longrightarrow>
   addPeekBlocks d device stateFilter peeks state deltas = Inr (state', deltas') \<Longrightarrow>
   distinct (map fst state')"
proof (induction peeks arbitrary: state deltas)
  case Nil then show ?case by simp
next
  case (Cons peek peeks)
  obtain s err where cur: "currentStateStreamEventsForRoom d (PeekRoomID peek) stateFilter = (s, err)"
    by (cases "currentStateStreamEventsForRoom d (PeekRoomID peek) stateFilter")
  show ?case
  proof (cases "New peek \<and> err = None")
    case True
    let ?state = "AList.update (PeekRoomID peek) s state"
    from True Cons.prems(2) cur
    have run: "addPeekBlocks d device stateFilter peeks ?state (peekDelta d device ?state peek deltas) =
        Inr (state', deltas')"
      by (simp add: Let_def)
    have "distinct (map fst ?state)" using Cons.prems(1) by (rule distinct_update)
    from Cons.IH [OF this run] show ?thesis .
  next
    case False
    with Cons.prems(2) cur obtain deltas1 where
      "addPeekBlocks d device stateFilter peeks state deltas1 = Inr (state', deltas')"
      by (auto split: if_splits option.splits)
    from Cons.IH [OF Cons.prems(1) this] show ?thesis .
  qed
qed

text \<open>What the scan of one room leaves untouched.\<close>

lemma membershipEvents_frame:
  assumes "membershipEvents d device userID stateFilter roomID sse evs (state, nj, deltas) =
             Inr (state', nj', deltas')"
    and "other \<noteq> roomID"
  shows "map_of state' other = map_of state other \<and> map_of nj' other = map_of nj other \<and>
         filter (\<lambda>x. RoomID x = other) deltas' = filter (\<lambda>x. RoomID x = other) deltas"
  using assms
proof (induction evs arbitrary: state nj deltas)
  case Nil then show ?case by simp
next
  case (Cons ev evs)
  obtain m p where gm: "getMembershipFromEvent d (HeaderedEvent ev) userID = (m, p)"
    by (cases "getMembershipFromEvent d (HeaderedEvent ev) userID")
  obtain s err where cur: "currentStateStreamEventsForRoom d roomID stateFilter = (s, err)"
    by (cases "currentStateStreamEventsForRoom d roomID stateFilter")
  show ?case
  proof (cases "m = []")
    case True
    with Cons.prems(1) gm
    have "membershipEvents d device userID stateFilter roomID sse evs (state, nj, deltas) =
             Inr (state', nj', deltas')" by simp
    from Cons.IH [OF this Cons.prems(2)] show ?thesis .
  next
    case False
    show ?thesis
    proof (cases "m = Join \<and> p \<noteq> m")
      case True
      then have fresh: "m = Join" "p \<noteq> Join" by auto
      show ?thesis
      proof (cases err)
        case None
        with Cons.prems(1) gm cur fresh
        have "membershipEvents d device userID stateFilter roomID sse evs
                (AList.update roomID s state, AList.update roomID True nj, deltas) =
              Inr (state', nj', deltas')" by simp
        from Cons.IH [OF this Cons.prems(2)] Cons.prems(2) show ?thesis
          by (simp add: update_conv')
      next
        case (Some e)
        with Cons.prems(1) gm cur fresh
        have "membershipEvents d device userID stateFilter roomID sse evs (state, nj, deltas) =
             Inr (state', nj', deltas')" by (auto split: if_splits)
        from Cons.IH [OF this Cons.prems(2)] show ?thesis .
      qed
    next
      case other: False
      with Cons.prems gm False show ?thesis by auto
    qed
  qed
qed

lemma membershipRooms_frame:
  assumes "membershipRooms d device userID stateFilter entries (state, nj, deltas) =
             Inr (state', nj', deltas')"
    and "other \<notin> fst ` set entries"
  shows "map_of state' other = map_of state other \<and> map_of nj' other = map_of nj other \<and>
         filter (\<lambda>x. RoomID x = other) deltas' = filter (\<lambda>x. RoomID x = other) deltas"
  using assms
proof (induction entries arbitrary: state nj deltas)
  case Nil then show ?case by simp
next
  case (Cons e entries)
  obtain k v where e: "e = (k, v)" by (cases e)
  from Cons.prems(1) e obtain state1 nj1 deltas1 where
    one: "membershipEvents d device userID stateFilter k v v (state, nj, deltas) =
            Inr (state1, nj1, deltas1)"
    and rest: "membershipRooms d device userID stateFilter entries (state1, nj1, deltas1) =
            Inr (state', nj', deltas')"
    by (auto split: sum.splits)
  from Cons.prems(2) e have ne: "other \<noteq> k" and notin: "other \<notin> fst ` set entries" by auto
  from membershipEvents_frame [OF one ne] Cons.IH [OF rest notin] show ?case by simp
qed

text \<open>The scan of a room up to and including its first membership event, a fresh join.\<close>

lemma membershipEvents_first_join:
  assumes "\<forall>e\<in>set pre. fst (getMembershipFromEvent d (HeaderedEvent e) userID) = []"
    and "getMembershipFromEvent d (HeaderedEvent ev) userID = (Join, prev)" and "prev \<noteq> Join"
    and "currentStateStreamEventsForRoom d roomID stateFilter = (s, None)"
  shows "membershipEvents d device userID stateFilter roomID sse (pre @ ev # post) (state, nj, deltas) =
         membershipEvents d device userID stateFilter roomID sse post
           (AList.update roomID s state, AList.update roomID True nj, deltas)"
  using assms(1)
proof (induction pre)
  case Nil
  from assms(2-4) show ?case by simp
next
  case (Cons e pre)
  then show ?case by (cases "getMembershipFromEvent d (HeaderedEvent e) userID") simp
qed

text \<open>The rest of the scan keeps the room marked and its state replaced.\<close>

lemma membershipEvents_marked:
  assumes "membershipEvents d device userID stateFilter roomID sse post (state, nj, deltas) =
             Inr (state', nj', deltas')"
    and "currentStateStreamEventsForRoom d roomID stateFilter = (s, None)"
    and "map_of state roomID = Some s" and "map_of nj roomID = Some True"
  shows "map_of state' roomID = Some s \<and> map_of nj' roomID = Some True \<and>
         (list_all (\<lambda>e. case getMembershipFromEvent d (HeaderedEvent e) userID of
                          (m, p) \<Rightarrow> m = [] \<or> (m = Join \<and> p \<noteq> Join)) post \<longrightarrow> deltas' = deltas)"
  using assms
proof (induction post arbitrary: state nj deltas)
  case Nil then show ?case by simp
next
  case (Cons ev evs)
  obtain m p where gm: "getMembershipFromEvent d (HeaderedEvent ev) userID = (m, p)"
    by (cases "getMembershipFromEvent d (HeaderedEvent ev) userID")
  show ?case
  proof (cases "m = []")
    case True
    with Cons.prems(1) gm
    have "membershipEvents d device userID stateFilter roomID sse evs (state, nj, deltas) =
             Inr (state', nj', deltas')" by simp
    from Cons.IH [OF this Cons.prems(2-4)] gm True show ?thesis by simp
  next
    case False
    show ?thesis
    proof (cases "m = Join \<and> p \<noteq> m")
      case True
      then have fresh: "m = Join" "p \<noteq> Join" by auto
      with Cons.prems(1,2) gm
      have run: "membershipEvents d device userID stateFilter roomID sse evs
                (AList.update roomID s state, AList.update roomID True nj, deltas) =
              Inr (state', nj', deltas')" by simp
      have "map_of (AList.update roomID s state) roomID = Some s"
        and "map_of (AList.update roomID True nj) roomID = Some True"
        by (simp_all add: update_conv')
      from Cons.IH [OF run Cons.prems(2) this] gm fresh show ?thesis by simp
    next
      case other: False
      with Cons.prems gm False show ?thesis by auto
    qed
  qed
qed

lemma membershipRooms_newly_joined:
  assumes "membershipRooms d device userID stateFilter entries (state, nj, deltas) =
             Inr (state', nj', deltas')"
    and "distinct (map fst entries)" and "(roomID, pre @ ev # post) \<in> set entries"
    and "\<forall>e\<in>set pre. fst (getMembershipFromEvent d (HeaderedEvent e) userID) = []"
    and "getMembershipFromEvent d (HeaderedEvent ev) userID = (Join, prev)" and "prev \<noteq> Join"
    and "currentStateStreamEventsForRoom d roomID stateFilter = (s, None)"
  shows "map_of state' roomID = Some s \<and> map_of nj' roomID = Some True \<and>
         (list_all (\<lambda>e. case getMembershipFromEvent d (HeaderedEvent e) userID of
                          (m, p) \<Rightarrow> m = [] \<or> (m = Join \<and> p \<noteq> Join)) post \<longrightarrow>
          filter (\<lambda>x. RoomID x = roomID) deltas' = filter (\<lambda>x. RoomID x = roomID) deltas)"
  using assms(1-3)
proof (induction entries arbitrary: state nj deltas)
  case Nil then show ?case by simp
next
  case (Cons e entries)
  obtain k v where e: "e = (k, v)" by (cases e)
  from Cons.prems(1) e obtain state1 nj1 deltas1 where
    one: "membershipEvents d device userID stateFilter k v v (state, nj, deltas) =
            Inr (state1, nj1, deltas1)"
    and rest: "membershipRooms d device userID stateFilter entries (state1, nj1, deltas1) =
            Inr (state', nj', deltas')"
    by (auto split: sum.splits)
  from Cons.prems(2) e have notin: "k \<notin> fst ` set entries" and dist: "distinct (map fst entries)"
    by auto
  show ?case
  proof (cases "k = roomID")
    case True
    with Cons.prems(3) e notin have v: "v = pre @ ev # post" by force
    from one True v membershipEvents_first_join [OF assms(4-7)]
    have "membershipEvents d device userID stateFilter roomID (pre @ ev # post) post
            (AList.update roomID s state, AList.update roomID True nj, deltas) =
          Inr (state1, nj1, deltas1)" by simp
    from membershipEvents_marked [OF this assms(7)]
    have 1: "map_of state1 roomID = Some s \<and> map_of nj1 roomID = Some True \<and>
         (list_all (\<lambda>e. case getMembershipFromEvent d (HeaderedEvent e) userID of
                          (m, p) \<Rightarrow> m = [] \<or> (m = Join \<and> p \<noteq> Join)) post \<longrightarrow> deltas1 = deltas)"
      by (simp add: update_conv')
    from notin True have "roomID \<notin> fst ` set entries" by simp
    from membershipRooms_frame [OF rest this] 1 show ?thesis by auto
  next
    case False
    with Cons.prems(3) e have mem: "(roomID, pre @ ev # post) \<in> set entries" by auto
    from False have "roomID \<noteq> k" by simp
    from membershipEvents_frame [OF one this] Cons.IH [OF rest dist mem] show ?thesis by simp
  qed
qed


section \<open>Newly joined rooms and joined rooms\<close>

lemma filter_eq_distinct: "distinct xs \<Longrightarrow> x \<in> set xs \<Longrightarrow> filter (\<lambda>y. y = x) xs = [x]"
  by (induction xs) (auto simp: filter_empty_conv)

lemma filter_joinedDeltas:
  "distinct js \<Longrightarrow> roomID \<in> set js \<Longrightarrow>
   filter (\<lambda>x. RoomID x = roomID) (joinedDeltas d device state nj js) =
     [\<lparr>RoomID = roomID,
       StateEvents = StreamEventsToEvents d (Some device) (stateOf state roomID),
       NewlyJoined = isNewlyJoined nj roomID, Membership = Join, MembershipPos = 0\<rparr>]"
  by (simp add: joinedDeltas_def filter_map comp_def filter_eq_distinct)

lemma filter_joinedDeltas_none:
  "roomID \<notin> set js \<Longrightarrow> filter (\<lambda>x. RoomID x = roomID) (joinedDeltas d device state nj js) = []"
  by (auto simp: joinedDeltas_def filter_empty_conv)

text \<open>
  Claim C1, as amended. In incremental sync, take a room whose state events, as
  the classification pass sees them, have as the first membership event of the
  user a join whose previous membership is not join. If the current-state lookup
  of that room succeeds and the call returns without error, the room is marked
  newly joined and its state is replaced by the full current state, every event
  at stream position 0. The classification pass emits no delta for the room when
  every later membership event of the user among those events is again such a
  join. When the room is among the rooms the user is joined to now, the
  joined-rooms pass emits exactly one delta for it: membership join, newly joined,
  carrying those events.
\<close>

theorem GetStateDeltas_newly_joined:
  assumes mem: "SelectRoomIDsWithAnyMembership d userID = (memberships, None)"
    and sir: "SelectStateInRange d r stateFilter
                (allRoomIDsOf (go_range (rnd 0) (DAList.impl_of memberships))) =
              (stateNeeded, eventMap, None)"
    and fet: "fetchStateEvents d stateNeeded eventMap = (fetched, None)"
    and pks: "SelectPeeksInRange d userID (ID device) r = (peeks, perr)"
    and pk: "addPeekBlocks d device stateFilter peeks (DAList.impl_of fetched) [] =
              Inr (state, peekDeltas)"
    and evs: "map_of state roomID = Some (pre @ ev # post)"
    and pre: "\<forall>e\<in>set pre. fst (getMembershipFromEvent d (HeaderedEvent e) userID) = []"
    and ev: "getMembershipFromEvent d (HeaderedEvent ev) userID = (Join, prev)"
    and prev: "prev \<noteq> Join"
    and cur: "SelectCurrentState d roomID stateFilter [] = (allState, None)"
    and res: "GetStateDeltas rnd d device r userID stateFilter = (deltas, joinedRoomIDs, None)"
  shows "\<exists>state' newlyJoinedRooms deltas'.
           membershipRooms d device userID stateFilter (go_range (rnd 1) state)
             (state, [], peekDeltas) = Inr (state', newlyJoinedRooms, deltas') \<and>
           isNewlyJoined newlyJoinedRooms roomID \<and>
           stateOf state' roomID =
             map (\<lambda>e. \<lparr>HeaderedEvent = e, StreamPosition = 0, TransactionID = None,
                        ExcludeFromSync = False\<rparr>) allState \<and>
           (list_all (\<lambda>e. case getMembershipFromEvent d (HeaderedEvent e) userID of
                            (m, p) \<Rightarrow> m = [] \<or> (m = Join \<and> p \<noteq> Join)) post \<longrightarrow>
            filter (\<lambda>x. RoomID x = roomID) deltas' = filter (\<lambda>x. RoomID x = roomID) peekDeltas) \<and>
           deltas = deltas' @ joinedDeltas d device state' newlyJoinedRooms joinedRoomIDs \<and>
           (DAList.lookup memberships roomID = Some Join \<longrightarrow>
            filter (\<lambda>x. RoomID x = roomID)
                (joinedDeltas d device state' newlyJoinedRooms joinedRoomIDs) =
              [\<lparr>RoomID = roomID,
                StateEvents = StreamEventsToEvents d (Some device)
                  (map (\<lambda>e. \<lparr>HeaderedEvent = e, StreamPosition = 0, TransactionID = None,
                             ExcludeFromSync = False\<rparr>) allState),
                NewlyJoined = True, Membership = Join, MembershipPos = 0\<rparr>])"
proof -
  let ?visit = "go_range (rnd 0) (DAList.impl_of memberships)"
  let ?full = "map (\<lambda>e. \<lparr>HeaderedEvent = e, StreamPosition = 0, TransactionID = None,
                        ExcludeFromSync = False\<rparr>) allState"
  let ?entries = "go_range (rnd 1) state"
  from res mem sir fet pks pk obtain state' nj deltas' where
    run: "membershipRooms d device userID stateFilter ?entries (state, [], peekDeltas) =
            Inr (state', nj, deltas')"
    and ds: "deltas = deltas' @ joinedDeltas d device state' nj joinedRoomIDs"
    and js: "joinedRoomIDs = joinedRoomIDsOf ?visit"
    by (cases "membershipRooms d device userID stateFilter ?entries (state, [], peekDeltas)")
       (auto simp: GetStateDeltas_def Let_def split: if_splits)
  have dist: "distinct (map fst state)"
    using DAList.impl_of_distinct pk by (rule addPeekBlocks_distinct)
  then have dist': "distinct (map fst ?entries)" by (simp add: distinct_keys_go_range)
  from evs have "(roomID, pre @ ev # post) \<in> set ?entries"
    by (simp add: set_go_range map_of_SomeD)
  from membershipRooms_newly_joined [OF run dist' this pre ev prev currentState_ok [OF cur]]
  have marked: "map_of state' roomID = Some ?full" "map_of nj roomID = Some True"
    and quiet: "list_all (\<lambda>e. case getMembershipFromEvent d (HeaderedEvent e) userID of
                            (m, p) \<Rightarrow> m = [] \<or> (m = Join \<and> p \<noteq> Join)) post \<longrightarrow>
            filter (\<lambda>x. RoomID x = roomID) deltas' = filter (\<lambda>x. RoomID x = roomID) peekDeltas"
    by simp_all
  have joined: "filter (\<lambda>x. RoomID x = roomID) (joinedDeltas d device state' nj joinedRoomIDs) =
              [\<lparr>RoomID = roomID, StateEvents = StreamEventsToEvents d (Some device) ?full,
                NewlyJoined = True, Membership = Join, MembershipPos = 0\<rparr>]"
    if "DAList.lookup memberships roomID = Some Join"
  proof -
    from that have "roomID \<in> set joinedRoomIDs" by (simp add: js set_joinedRoomIDsOf)
    moreover have "distinct joinedRoomIDs" by (simp add: js distinct_joinedRoomIDsOf)
    ultimately show ?thesis using marked
      by (simp add: filter_joinedDeltas stateOf_def isNewlyJoined_def)
  qed
  from run marked quiet ds joined show ?thesis
    by (auto simp: stateOf_def isNewlyJoined_def)
qed



section \<open>Not-found answers and other errors\<close>


































section \<open>Runs on the example stores\<close>

lemmas stores = homeDatabase_def quietDatabase_def noStateDatabase_def peekAndJoinDatabase_def
  renameDatabase_def comeAndGoDatabase_def strangerDatabase_def brokenDatabase_def
  stateLostDatabase_def lobbyGoneDatabase_def goneAgainDatabase_def
lemmas evals = DAList.impl_of_Alist DAList.lookup.rep_eq DAList.empty.rep_eq allRoomIDsOf_def joinedRoomIDsOf_def peekDelta_def joinedDeltas_def
  stateOf_def isNewlyJoined_def currentStateStreamEventsForRoom_def inOrder_def secondFirst_def
  memberOf_def memberEvent_def streamEvent_def aliceJoins_def aliceLeft_def aliceLeaves_def aliceRenames_def
  roomCreate_def lobbyCreate_def alice_def window_def Let_def peekOf_def joinOf_def changeOf_def connectionLost_def

text \<open>
  Claim C8. Under the event-store contract of the spec, \<^verbatim>\<open>Events\<close> returns
  exactly the stored events whose ID is asked for: an ID the store does not hold
  is left out and is no error; only a failure of the database is. No device is
  passed on, so every event is returned as stored, and none carries a transaction
  ID when the stored events carry none.
\<close>

theorem Events_found_without_transaction_id:
  assumes "SelectEvents d = spec_SelectEvents stored fault accepts"
    and "StreamEventsToEvents d = spec_StreamEventsToEvents attach"
  shows "(fault = None \<longrightarrow>
            Events d eventIDs =
              (map HeaderedEvent
                 (filter (\<lambda>se. EventID (HeaderedEvent se) \<in> set eventIDs) stored), None)) \<and>
         (\<forall>err. fault = Some err \<longrightarrow> Events d eventIDs = ([], Some err)) \<and>
         (list_all (\<lambda>se. UnsignedTransactionID (HeaderedEvent se) = None) stored \<longrightarrow>
            list_all (\<lambda>ev. UnsignedTransactionID ev = None) (fst (Events d eventIDs)))"
  using assms
  by (auto simp: Events_def spec_SelectEvents_def spec_StreamEventsToEvents_def list_all_iff
           split: option.splits)

theorem Events_found_without_transaction_id_witness:
  "Events archiveDatabase [''$e12'', ''$gone'', ''$e11''] = ([message ''$e11'', message ''$e12''], None) \<and>
   map UnsignedTransactionID (fst (Events archiveDatabase [''$e12'', ''$gone'', ''$e11''])) = [None, None]"
proof -
  have 1: "SelectEvents archiveDatabase = spec_SelectEvents archive None (\<lambda>eventFilter se. True)"
    and 2: "StreamEventsToEvents archiveDatabase = spec_StreamEventsToEvents (\<lambda>device se. True)"
    by (simp_all add: archiveDatabase_def quietDatabase_def)
  from Events_found_without_transaction_id [OF 1 2, of "[''$e12'', ''$gone'', ''$e11'']"]
  show ?thesis by (simp add: archive_def streamEvent_def message_def)
qed

theorem GetStateDeltas_newly_joined_witness:
  "filter (\<lambda>x. RoomID x = ''!room:hs'')
     (fst (GetStateDeltas secondFirst homeDatabase alice window ''@alice:hs'' None)) =
   [joinOf ''!room:hs'' [roomCreate, aliceJoins] True]"
proof -
  let ?state = "[(''!room:hs'', [streamEvent aliceJoins 5]), (''!old:hs'', [streamEvent aliceLeft 7]),
                 (''!lobby:hs'', [streamEvent lobbyCreate 0])]"
  have mem: "SelectRoomIDsWithAnyMembership homeDatabase ''@alice:hs'' =
      (DAList.Alist [(''!room:hs'', ''join''), (''!old:hs'', ''leave'')], None)"
    by (simp add: stores)
  have sir: "SelectStateInRange homeDatabase window None
      (allRoomIDsOf (go_range (secondFirst 0)
         (DAList.impl_of (DAList.Alist [(''!room:hs'', ''join''), (''!old:hs'', ''leave'')])))) =
      ([], [], None)"
    by (simp add: stores)
  have fet: "fetchStateEvents homeDatabase [] [] =
      (DAList.Alist [(''!room:hs'', [streamEvent aliceJoins 5]),
                     (''!old:hs'', [streamEvent aliceLeft 7])], None)"
    by (simp add: stores)
  have pks: "SelectPeeksInRange homeDatabase ''@alice:hs'' (ID alice) window =
      ([\<lparr>PeekRoomID = ''!lobby:hs'', New = True, Deleted = False\<rparr>], None)"
    by (simp add: stores)
  have pk: "addPeekBlocks homeDatabase alice None
      [\<lparr>PeekRoomID = ''!lobby:hs'', New = True, Deleted = False\<rparr>]
      (DAList.impl_of (DAList.Alist [(''!room:hs'', [streamEvent aliceJoins 5]),
                     (''!old:hs'', [streamEvent aliceLeft 7])])) [] =
      Inr (?state, [peekOf ''!lobby:hs'' [lobbyCreate]])"
    by (simp add: stores evals)
  have evs: "map_of ?state ''!room:hs'' = Some ([] @ streamEvent aliceJoins 5 # [])"
    by simp
  have pre: "\<forall>e\<in>set []. fst (getMembershipFromEvent homeDatabase (HeaderedEvent e) ''@alice:hs'') = []"
    by simp
  have ev: "getMembershipFromEvent homeDatabase (HeaderedEvent (streamEvent aliceJoins 5)) ''@alice:hs'' =
      (Join, ''invite'')"
    by (simp add: stores evals)
  have prev: "''invite'' \<noteq> Join" by simp
  have cur: "SelectCurrentState homeDatabase ''!room:hs'' None [] = ([roomCreate, aliceJoins], None)"
    by (simp add: stores)
  have res: "GetStateDeltas secondFirst homeDatabase alice window ''@alice:hs'' None =
      ([peekOf ''!lobby:hs'' [lobbyCreate], changeOf ''!old:hs'' ''leave'' 7 [aliceLeft],
        joinOf ''!room:hs'' [roomCreate, aliceJoins] True], [''!room:hs''], None)"
    by (simp add: GetStateDeltas_def stores evals)
  have joined: "DAList.lookup (DAList.Alist [(''!room:hs'', ''join''), (''!old:hs'', ''leave'')])
      ''!room:hs'' = Some Join"
    by (simp add: evals)
  from GetStateDeltas_newly_joined [OF mem sir fet pks pk evs pre ev prev cur res]
  obtain state' nj deltas' where
    quiet: "filter (\<lambda>x. RoomID x = ''!room:hs'') deltas' =
            filter (\<lambda>x. RoomID x = ''!room:hs'') [peekOf ''!lobby:hs'' [lobbyCreate]]"
    and ds: "[peekOf ''!lobby:hs'' [lobbyCreate], changeOf ''!old:hs'' ''leave'' 7 [aliceLeft],
        joinOf ''!room:hs'' [roomCreate, aliceJoins] True] =
        deltas' @ joinedDeltas homeDatabase alice state' nj [''!room:hs'']"
    and j: "filter (\<lambda>x. RoomID x = ''!room:hs'')
                (joinedDeltas homeDatabase alice state' nj [''!room:hs'']) =
              [\<lparr>RoomID = ''!room:hs'',
                StateEvents = StreamEventsToEvents homeDatabase (Some alice)
                  (map (\<lambda>e. \<lparr>HeaderedEvent = e, StreamPosition = 0, TransactionID = None,
                             ExcludeFromSync = False\<rparr>) [roomCreate, aliceJoins]),
                NewlyJoined = True, Membership = Join, MembershipPos = 0\<rparr>]"
    using joined by auto
  have "filter (\<lambda>x. RoomID x = ''!room:hs'')
     (fst (GetStateDeltas secondFirst homeDatabase alice window ''@alice:hs'' None)) =
      filter (\<lambda>x. RoomID x = ''!room:hs'') (deltas' @ joinedDeltas homeDatabase alice state' nj [''!room:hs''])"
    by (simp only: res fst_conv ds)
  also have "\<dots> = [joinOf ''!room:hs'' [roomCreate, aliceJoins] True]"
    unfolding filter_append quiet j by (simp add: stores evals)
  finally show ?thesis .
qed

theorem GetStateDeltas_newly_joined_counterexample:
  "getMembershipFromEvent noStateDatabase aliceJoins ''@alice:hs'' = (''join'', ''invite'') \<and>
   SelectCurrentState noStateDatabase ''!room:hs'' None [] = ([], Some ErrNoRows) \<and>
   GetStateDeltas inOrder noStateDatabase alice window ''@alice:hs'' None =
     ([changeOf ''!old:hs'' ''leave'' 7 [aliceLeft], joinOf ''!room:hs'' [aliceJoins] False],
      [''!room:hs''], None) \<and>
   getMembershipFromEvent comeAndGoDatabase aliceJoins ''@alice:hs'' = (''join'', ''invite'') \<and>
   SelectCurrentState comeAndGoDatabase ''!room:hs'' None [] = ([roomCreate, aliceLeaves], None) \<and>
   GetStateDeltas inOrder comeAndGoDatabase alice window ''@alice:hs'' None =
     ([changeOf ''!room:hs'' ''leave'' 8 [aliceJoins, aliceLeaves]], [], None)"
  by (simp add: GetStateDeltas_def stores evals)

text \<open>
  Claim C2 does not hold of \<^verbatim>\<open>GetStateDeltas\<close>, whose deltas are a slice
  that every pass appends to. A room that the device peeks into and the user is
  joined to gets a peek delta and a join delta; a room the user joins and then
  changes her display name in gets a delta from the classification pass and one
  from the joined-rooms pass.
\<close>

theorem GetStateDeltas_room_twice:
  "GetStateDeltas inOrder peekAndJoinDatabase alice window ''@alice:hs'' None =
     ([peekOf ''!room:hs'' [aliceJoins], changeOf ''!old:hs'' ''leave'' 7 [aliceLeft],
       joinOf ''!room:hs'' [roomCreate, aliceJoins] True], [''!room:hs''], None) \<and>
   GetStateDeltas inOrder renameDatabase alice window ''@alice:hs'' None =
     ([changeOf ''!room:hs'' ''join'' 6 [aliceJoins, aliceRenames],
       joinOf ''!room:hs'' [roomCreate, aliceJoins] True], [''!room:hs''], None)"
  by (simp add: GetStateDeltas_def stores evals)




end
